theory Spec2Isabelle
  imports Complex_Main "HOL-Library.AList" "HOL-Library.Sublist"
begin

section \<open>Data model\<close>

text \<open>
  JavaScript numbers that carry accuracies, costs and token averages are modelled as
  \<^typ>\<open>real\<close>: the arithmetic of the source is kept expression by expression, the
  rounding of IEEE doubles is not modelled. Counters and indices are \<^typ>\<open>nat\<close>.
  A property that may be \<^verbatim>\<open>undefined\<close> or \<^verbatim>\<open>null\<close> is an \<^typ>\<open>'a option\<close>.
\<close>

type_synonym experiment_id = string

text \<open>
  Several objects of the source share property names (\<^verbatim>\<open>accuracy\<close>, \<^verbatim>\<open>ratings\<close>,
  \<^verbatim>\<open>samples\<close>, ...). Each record keeps the source's names; where two records share a
  name the selector is written with its record (\<open>manual_rating.accuracy\<close>).
\<close>

text \<open>One point of the scatter chart, as built by \<^verbatim>\<open>chartData\<close> in ResultsView.\<close>

record chart_point =
  name :: string
  model :: string
  experimentId :: experiment_id
  accuracy :: real
  cost :: "real option"
  tokens :: real
  isCurrent :: bool
  samples :: nat

text \<open>One element of \<^verbatim>\<open>sample_results\<close>, with the fields the components read.\<close>

record sample_result =
  input :: string
  output_text :: "string option"
  success :: bool
  error :: "string option"
  tokens :: nat
  cost :: real
  accuracy :: real
  expected :: "string option"

text \<open>
  The value stored per experiment id in the manual-rating overlay:
  \<^verbatim>\<open>{ ratings, accuracy: averageAccuracy }\<close>.
\<close>

record manual_rating =
  ratings :: "(nat \<times> nat) list"
  accuracy :: real

text \<open>
  The overlay is a JavaScript object keyed by experiment id. The browser keeps it as the
  JSON text of the \<^verbatim>\<open>localStorage\<close> item \<^verbatim>\<open>manualRatings\<close>; the item may be absent.
\<close>

type_synonym overlay = "experiment_id \<rightharpoonup> manual_rating"

text \<open>
  An experiment as the backend returns it, with the three properties the components add
  when they merge the overlay in (\<^verbatim>\<open>has_manual_rating\<close>, \<^verbatim>\<open>manual_accuracy\<close>,
  \<^verbatim>\<open>original_accuracy\<close>; absent on what the backend sends).
\<close>

record experiment_data =
  experiment_id :: experiment_id
  prompt :: string
  model :: string
  created_at :: string
  samples_tested :: nat
  avg_tokens :: real
  estimated_cost :: "real option"
  sample_results :: "sample_result list option"
  accuracy :: real
  has_manual_rating :: "bool option"
  manual_accuracy :: "real option"
  original_accuracy :: "real option"

text \<open>What a rejected promise or a \<^verbatim>\<open>throw\<close> carries: \<^verbatim>\<open>error.response?.status\<close>.\<close>

record http_response =
  status :: int

record js_error =
  response :: "http_response option"
  message :: string

text \<open>Truthiness of a number that may be absent: \<^verbatim>\<open>undefined\<close> and \<open>0\<close> are falsy.\<close>

definition truthy_num :: "real option \<Rightarrow> bool" where
  "truthy_num v = (case v of None \<Rightarrow> False | Some x \<Rightarrow> x \<noteq> 0)"

section \<open>RatingModal.jsx\<close>

text \<open>
  \<^verbatim>\<open>isOpen\<close> and \<^verbatim>\<open>samples\<close> are props, \<^verbatim>\<open>currentIndex\<close> and \<^verbatim>\<open>ratings\<close> are
  component state. \<^verbatim>\<open>ratings\<close> is a JavaScript object from sample index to star value:
  an association list with at most one pair per key, updated with
  \<^const>\<open>AList.update\<close>; \<^verbatim>\<open>Object.keys\<close> is \<^term>\<open>map fst\<close> and
  \<^verbatim>\<open>Object.values\<close> is \<^term>\<open>map snd\<close> (the source only counts the keys and sums the
  values, so the enumeration order does not matter).
  \<^verbatim>\<open>pending\<close> holds the index captured by each \<^verbatim>\<open>setTimeout\<close> callback that
  \<^verbatim>\<open>handleRating\<close> has scheduled and that has not run yet; all callbacks have the same
  delay, so they run in the order they were scheduled.
\<close>

record rating_modal =
  isOpen :: bool
  samples :: "sample_result list option"
  currentIndex :: nat
  ratings :: "(nat \<times> nat) list"
  pending :: "nat list"

text \<open>\<^verbatim>\<open>const successfulSamples = samples ? samples.filter(s => s.success) : []\<close>\<close>

definition successfulSamples :: "sample_result list option \<Rightarrow> sample_result list" where
  "successfulSamples smp = (case smp of None \<Rightarrow> [] | Some xs \<Rightarrow> filter success xs)"

text \<open>
  What the component returns. Reading \<^verbatim>\<open>currentSample.input\<close> when
  \<^verbatim>\<open>successfulSamples[currentIndex]\<close> is \<^verbatim>\<open>undefined\<close> throws a TypeError.
\<close>

datatype modal_view =
    RenderNull
  | NoSamplesToRate
  | Reviewing sample_result nat nat
  | RenderTypeError

definition render :: "rating_modal \<Rightarrow> modal_view" where
  "render m =
     (if \<not> isOpen m \<or> length (successfulSamples (samples m)) = 0 then
        (if isOpen m \<and> (case samples m of None \<Rightarrow> False | Some xs \<Rightarrow> length xs > 0)
            \<and> length (successfulSamples (samples m)) = 0
         then NoSamplesToRate else RenderNull)
      else if currentIndex m < length (successfulSamples (samples m))
        then Reviewing (successfulSamples (samples m) ! currentIndex m) (currentIndex m)
               (length (successfulSamples (samples m)))
        else RenderTypeError)"

text \<open>The effect of \<^verbatim>\<open>useEffect(() => { if (isOpen) {...} }, [isOpen])\<close> when the modal opens.\<close>

definition openModal :: "sample_result list option \<Rightarrow> rating_modal" where
  "openModal smp = \<lparr>isOpen = True, samples = smp, currentIndex = 0, ratings = [], pending = []\<rparr>"

definition handleRating :: "nat \<Rightarrow> rating_modal \<Rightarrow> rating_modal" where
  "handleRating rating m =
     m\<lparr>ratings := AList.update (currentIndex m) rating (ratings m),
       pending := pending m @ [currentIndex m]\<rparr>"

text \<open>
  The callback of \<^verbatim>\<open>setTimeout\<close>, with the \<^verbatim>\<open>currentIndex\<close> of the render in which the
  star was clicked. On \<^typ>\<open>nat\<close>, \<open>length - 1\<close> is \<open>0\<close> for the empty list where
  JavaScript has \<open>-1\<close>; the comparison is false in both.
\<close>

definition autoAdvance :: "nat \<Rightarrow> rating_modal \<Rightarrow> rating_modal" where
  "autoAdvance captured m =
     (if captured < length (successfulSamples (samples m)) - 1
      then m\<lparr>currentIndex := captured + 1\<rparr> else m)"

definition handleNext :: "rating_modal \<Rightarrow> rating_modal" where
  "handleNext m =
     (if currentIndex m < length (successfulSamples (samples m)) - 1
      then m\<lparr>currentIndex := currentIndex m + 1\<rparr> else m)"

definition handlePrevious :: "rating_modal \<Rightarrow> rating_modal" where
  "handlePrevious m =
     (if currentIndex m > 0 then m\<lparr>currentIndex := currentIndex m - 1\<rparr> else m)"

text \<open>
  What \<^verbatim>\<open>handleSave\<close> does to the outside, in order.
  \<^item> \<open>ToastPleaseRateAll k\<close> is \<^verbatim>\<open>toast.error(`Please rate all samples (${k} remaining)`)\<close>;
  \<^item> \<open>OnSaveRatings r a\<close> is the call \<^verbatim>\<open>onSaveRatings(ratings, averageAccuracy)\<close>, the only
    way from the modal to the parent's storage and network code;
  \<^item> \<open>ToastEvaluationComplete a\<close> is the success toast;
  \<^item> \<open>OnClose\<close> is the call \<^verbatim>\<open>onClose()\<close>.
\<close>

datatype modal_effect =
    ToastPleaseRateAll int
  | OnSaveRatings "(nat \<times> nat) list" real
  | ToastEvaluationComplete real
  | OnClose

definition unratedCount :: "rating_modal \<Rightarrow> int" where
  "unratedCount m =
     int (length (successfulSamples (samples m))) - int (length (map fst (ratings m)))"

definition totalRating :: "rating_modal \<Rightarrow> nat" where
  "totalRating m = foldl (\<lambda>sum rating. sum + rating) 0 (map snd (ratings m))"

definition averageAccuracy :: "rating_modal \<Rightarrow> real" where
  "averageAccuracy m =
     min 100 (max 0 ((real (totalRating m) / real (length (successfulSamples (samples m)))) * 20))"

definition handleSave :: "rating_modal \<Rightarrow> modal_effect list" where
  "handleSave m =
     (if unratedCount m > 0 then [ToastPleaseRateAll (unratedCount m)]
      else [OnSaveRatings (ratings m) (averageAccuracy m),
            ToastEvaluationComplete (averageAccuracy m),
            OnClose])"

text \<open>
  Both parents pass an \<^verbatim>\<open>onClose\<close> that sets their \<^verbatim>\<open>showRatingModal\<close> to false, which
  is the modal's \<^verbatim>\<open>isOpen\<close>.
\<close>

definition onClose :: "rating_modal \<Rightarrow> rating_modal" where
  "onClose m = m\<lparr>isOpen := False\<rparr>"

subsection \<open>The workflow as a state machine\<close>

text \<open>
  The events of one session of the modal over a fixed \<^verbatim>\<open>samples\<close> prop. The handlers are
  closures created after the early return of the component, so they exist only in the
  reviewing view; the notice has the Close button only. \<open>TimerFires\<close> runs the oldest
  scheduled callback.
\<close>

datatype event = Rate nat | TimerFires | Next | Previous | Save | Close

fun step :: "event \<Rightarrow> rating_modal \<Rightarrow> rating_modal \<times> modal_effect list" where
  "step TimerFires m =
     (case pending m of
        [] \<Rightarrow> (m, [])
      | captured # rest \<Rightarrow> (autoAdvance captured (m\<lparr>pending := rest\<rparr>), []))"
| "step Close m =
     (case render m of
        Reviewing s i n \<Rightarrow> (onClose m, [OnClose])
      | NoSamplesToRate \<Rightarrow> (onClose m, [OnClose])
      | _ \<Rightarrow> (m, []))"
| "step ev m =
     (case render m of
        Reviewing s i n \<Rightarrow>
          (case ev of
             Rate star \<Rightarrow> (handleRating star m, [])
           | Next \<Rightarrow> (handleNext m, [])
           | Previous \<Rightarrow> (handlePrevious m, [])
           | Save \<Rightarrow> (if OnClose \<in> set (handleSave m) then onClose m else m, handleSave m)
           | _ \<Rightarrow> (m, []))
      | _ \<Rightarrow> (m, []))"

text \<open>The star buttons are \<^verbatim>\<open>[1, 2, 3, 4, 5].map(star => ...)\<close>.\<close>

fun valid_event :: "event \<Rightarrow> bool" where
  "valid_event (Rate star) = (1 \<le> star \<and> star \<le> 5)"
| "valid_event _ = True"

fun run :: "event list \<Rightarrow> rating_modal \<Rightarrow> rating_modal" where
  "run [] m = m"
| "run (ev # evs) m = run evs (fst (step ev m))"

text \<open>What holds in every state of a session: the invariant of the workflow.\<close>

definition modal_inv :: "rating_modal \<Rightarrow> bool" where
  "modal_inv m =
     (distinct (map fst (ratings m))
      \<and> list_all (\<lambda>k. k < length (successfulSamples (samples m))) (map fst (ratings m))
      \<and> list_all (\<lambda>v. 1 \<le> v \<and> v \<le> 5) (map snd (ratings m))
      \<and> list_all (\<lambda>k. k < length (successfulSamples (samples m))) (pending m)
      \<and> (successfulSamples (samples m) = [] \<or> currentIndex m < length (successfulSamples (samples m))))"

subsection \<open>The spec's formula for the accuracy of a rating\<close>

definition spec_clamp :: "real \<Rightarrow> real \<Rightarrow> real \<Rightarrow> real" where
  "spec_clamp lo hi x = (if x < lo then lo else if hi < x then hi else x)"

definition spec_mean :: "nat list \<Rightarrow> real" where
  "spec_mean vs = real (sum_list vs) / real (length vs)"

definition spec_accuracy :: "nat list \<Rightarrow> real" where
  "spec_accuracy vs = spec_clamp 0 100 (spec_mean vs * 20)"

text \<open>
  The spec's words for the state of a session: \<^verbatim>\<open>ratings\<close> is a total function over the
  indices of the successful samples, and the number of indices that have no rating yet.
\<close>

definition remaining :: "rating_modal \<Rightarrow> nat" where
  "remaining m = length (filter (\<lambda>i. map_of (ratings m) i = None)
                   [0..<length (successfulSamples (samples m))])"

definition rated_all :: "rating_modal \<Rightarrow> bool" where
  "rated_all m = list_all (\<lambda>k. map_of (ratings m) k \<noteq> None)
                   [0..<length (successfulSamples (samples m))]"

section \<open>The manual-rating overlay in the browser's storage\<close>

text \<open>
  \<^verbatim>\<open>const savedRatings = localStorage.getItem('manualRatings')\<close>,
  \<^verbatim>\<open>savedRatings ? JSON.parse(savedRatings) : {}\<close>: an absent item reads as the empty object.
\<close>

definition readManualRatings :: "overlay option \<Rightarrow> overlay" where
  "readManualRatings savedRatings = (case savedRatings of None \<Rightarrow> Map.empty | Some m \<Rightarrow> m)"

text \<open>
  The outcome of \<^verbatim>\<open>api.getExperiments()\<close>: the promise rejects, or resolves with
  \<^verbatim>\<open>response.data.experiments\<close>, which may be absent (\<^verbatim>\<open>|| []\<close>).
\<close>

type_synonym experiments_response = "js_error + experiment_data list option"

definition experiments_or_empty :: "experiment_data list option \<Rightarrow> experiment_data list" where
  "experiments_or_empty v = (case v of None \<Rightarrow> [] | Some xs \<Rightarrow> xs)"

section \<open>ResultsView.jsx\<close>

record results_view =
  results :: experiment_data
  manualAccuracy :: "real option"
  allExperiments :: "experiment_data list"

text \<open>The callback of \<^verbatim>\<open>experiments.map\<close> in \<^verbatim>\<open>fetchAllExperiments\<close>.\<close>

definition withRating :: "overlay \<Rightarrow> experiment_data \<Rightarrow> experiment_data" where
  "withRating manualRatings ex =
     (case manualRatings (experiment_id ex) of
        Some r \<Rightarrow> ex\<lparr>accuracy := manual_rating.accuracy r, has_manual_rating := Some True\<rparr>
      | None \<Rightarrow> ex)"

definition fetchAllExperiments ::
  "experiments_response \<Rightarrow> overlay option \<Rightarrow> results_view \<Rightarrow> results_view" where
  "fetchAllExperiments resp stored rv =
     (case resp of
        Inl err \<Rightarrow> rv
      | Inr data \<Rightarrow>
          rv\<lparr>allExperiments :=
               map (withRating (readManualRatings stored)) (experiments_or_empty data)\<rparr>)"

text \<open>
  \<^verbatim>\<open>handleSaveRatings\<close> of ResultsView: sets the view's own \<^verbatim>\<open>manualAccuracy\<close>, reads the
  stored overlay, writes the entry of the displayed experiment, stores the overlay and
  fetches the experiments again. It returns the view and the stored item.
\<close>

definition ResultsView_handleSaveRatings ::
  "(nat \<times> nat) list \<Rightarrow> real \<Rightarrow> experiments_response \<Rightarrow>
   results_view \<times> overlay option \<Rightarrow> results_view \<times> overlay option" where
  "ResultsView_handleSaveRatings rs avg resp st =
     (case st of (rv, stored) \<Rightarrow>
        (fetchAllExperiments resp
           (Some ((readManualRatings stored)
              (experiment_id (results rv) \<mapsto> \<lparr>manual_rating.ratings = rs, manual_rating.accuracy = avg\<rparr>)))
           (rv\<lparr>manualAccuracy := Some avg\<rparr>),
         Some ((readManualRatings stored)
              (experiment_id (results rv) \<mapsto> \<lparr>manual_rating.ratings = rs, manual_rating.accuracy = avg\<rparr>))))"

text \<open>\<^verbatim>\<open>manualAccuracy !== null ? manualAccuracy : results.accuracy\<close>\<close>

definition displayAccuracy :: "results_view \<Rightarrow> real" where
  "displayAccuracy rv =
     (case manualAccuracy rv of Some a \<Rightarrow> a | None \<Rightarrow> experiment_data.accuracy (results rv))"

text \<open>
  \<^verbatim>\<open>chartData\<close>: the filter, then the map. \<^verbatim>\<open>exp.estimated_cost * 1000\<close> of an absent
  cost is not a number: \<open>None\<close>.
\<close>

definition evaluated :: "experiment_data \<Rightarrow> bool" where
  "evaluated ex = (experiment_data.accuracy ex > 0 \<and> truthy_num (estimated_cost ex))"

definition toChartPoint :: "experiment_data \<Rightarrow> experiment_data \<Rightarrow> chart_point" where
  "toChartPoint res ex =
     \<lparr>chart_point.name = experiment_data.model ex @ '' #'' @ experiment_id ex,
      chart_point.model = experiment_data.model ex,
      experimentId = experiment_id ex,
      chart_point.accuracy = experiment_data.accuracy ex,
      chart_point.cost = map_option (\<lambda>c. c * 1000) (estimated_cost ex),
      chart_point.tokens = avg_tokens ex * real (samples_tested ex),
      isCurrent = (experiment_id ex = experiment_id res),
      chart_point.samples = samples_tested ex\<rparr>"

definition chartData :: "results_view \<Rightarrow> chart_point list" where
  "chartData rv = map (toChartPoint (results rv)) (filter evaluated (allExperiments rv))"

section \<open>ExperimentHistory.jsx\<close>

record experiment_history =
  experiments :: "experiment_data list"
  manualRatings :: overlay
  selectedExperiment :: "experiment_data option"
  showRatingModal :: bool
  isClearing :: bool

text \<open>
  The component's state when it mounts: \<^verbatim>\<open>manualRatings\<close> is read from the storage once,
  by the initialiser of \<^verbatim>\<open>useState\<close>.
\<close>

definition mountHistory :: "overlay option \<Rightarrow> experiment_history" where
  "mountHistory stored =
     \<lparr>experiments = [], manualRatings = readManualRatings stored, selectedExperiment = None,
      showRatingModal = False, isClearing = False\<rparr>"

text \<open>
  \<^verbatim>\<open>useEffect(() => { localStorage.setItem('manualRatings', JSON.stringify(manualRatings)) },
  [manualRatings])\<close>: after every change of the state \<^verbatim>\<open>manualRatings\<close> the stored item
  becomes the state.
\<close>

definition persistManualRatings :: "experiment_history \<Rightarrow> overlay option" where
  "persistManualRatings h = Some (manualRatings h)"

text \<open>The callback of \<^verbatim>\<open>exps.map\<close> in \<^verbatim>\<open>fetchExperiments\<close>.\<close>

definition withManualAccuracy :: "overlay \<Rightarrow> experiment_data \<Rightarrow> experiment_data" where
  "withManualAccuracy mr ex =
     (case mr (experiment_id ex) of
        Some r \<Rightarrow> ex\<lparr>manual_accuracy := Some (manual_rating.accuracy r),
                     original_accuracy := Some (experiment_data.accuracy ex)\<rparr>
      | None \<Rightarrow> ex)"

definition fetchExperiments :: "experiments_response \<Rightarrow> experiment_history \<Rightarrow> experiment_history" where
  "fetchExperiments resp h =
     (case resp of
        Inl err \<Rightarrow> h
      | Inr data \<Rightarrow>
          h\<lparr>experiments := map (withManualAccuracy (manualRatings h)) (experiments_or_empty data)\<rparr>)"

definition handleRateExperiment :: "experiment_data \<Rightarrow> experiment_history \<Rightarrow> experiment_history" where
  "handleRateExperiment ex h = h\<lparr>selectedExperiment := Some ex, showRatingModal := True\<rparr>"

text \<open>
  \<^verbatim>\<open>handleSaveRatings\<close> of ExperimentHistory. It is the \<^verbatim>\<open>onSaveRatings\<close> of a modal that
  is rendered only when \<^verbatim>\<open>selectedExperiment\<close> is set; with no selected experiment
  reading \<^verbatim>\<open>selectedExperiment.experiment_id\<close> throws, and the state stays as it is
  (\<open>None\<close>).
\<close>

definition ExperimentHistory_handleSaveRatings ::
  "(nat \<times> nat) list \<Rightarrow> real \<Rightarrow> experiment_history \<Rightarrow> experiment_history option" where
  "ExperimentHistory_handleSaveRatings rs avg h =
     (case selectedExperiment h of
        None \<Rightarrow> None
      | Some sel \<Rightarrow>
          Some (h\<lparr>manualRatings :=
                    (manualRatings h)
                      (experiment_id sel \<mapsto> \<lparr>manual_rating.ratings = rs, manual_rating.accuracy = avg\<rparr>),
                  experiments :=
                    map (\<lambda>ex. if experiment_id ex = experiment_id sel
                               then ex\<lparr>manual_accuracy := Some avg\<rparr> else ex)
                        (experiments h)\<rparr>))"

text \<open>
  A save in the history list as the browser sees it: the handler, then the effect that
  stores the changed \<^verbatim>\<open>manualRatings\<close>. It returns the component and the stored item.
\<close>

definition saveInHistory ::
  "(nat \<times> nat) list \<Rightarrow> real \<Rightarrow> experiment_history \<times> overlay option \<Rightarrow>
   experiment_history \<times> overlay option" where
  "saveInHistory rs avg st =
     (case st of (h, stored) \<Rightarrow>
        (case ExperimentHistory_handleSaveRatings rs avg h of
           None \<Rightarrow> (h, stored)
         | Some h' \<Rightarrow> (h', persistManualRatings h')))"



text \<open>The accuracy badge of one row of the history list.\<close>

datatype badge = AllSamplesFailed nat | AccuracyBadge real | NotRatedYet

definition failedCount :: "experiment_data \<Rightarrow> nat" where
  "failedCount ex =
     (case sample_results ex of None \<Rightarrow> 0 | Some rs \<Rightarrow> length (filter (\<lambda>s. \<not> success s) rs))"

definition totalCount :: "experiment_data \<Rightarrow> nat" where
  "totalCount ex = (case sample_results ex of None \<Rightarrow> 0 | Some rs \<Rightarrow> length rs)"

definition allFailed :: "experiment_data \<Rightarrow> bool" where
  "allFailed ex = (failedCount ex = totalCount ex \<and> totalCount ex > 0)"

definition accuracyBadge :: "experiment_data \<Rightarrow> badge" where
  "accuracyBadge ex =
     (if allFailed ex then AllSamplesFailed (totalCount ex)
      else if truthy_num (manual_accuracy ex) then
        (case manual_accuracy ex of Some a \<Rightarrow> AccuracyBadge a | None \<Rightarrow> NotRatedYet)
      else NotRatedYet)"

subsection \<open>Clear All\<close>

text \<open>
  Modelled from the spec: the backend handler of \<^verbatim>\<open>DELETE /api/reset?reset_type=experiments\<close>
  is not part of the frontend sources. The request either succeeds, and the backend then
  holds no experiment, or fails (the promise of \<^verbatim>\<open>api.resetData\<close> rejects), and the
  backend holds what it held.
\<close>

datatype reset_response = ResetDone | ResetFailed js_error

definition server_reset :: "reset_response \<Rightarrow> experiment_data list \<Rightarrow> experiment_data list" where
  "server_reset resp held = (case resp of ResetDone \<Rightarrow> [] | ResetFailed err \<Rightarrow> held)"

datatype history_toast = ToastAllCleared | ToastClearFailed

text \<open>
  The browser and the backend around the history list: what the backend holds, the stored
  overlay item, the component, and the toasts shown so far.
\<close>

record history_world =
  server_experiments :: "experiment_data list"
  stored_manualRatings :: "overlay option"
  history :: experiment_history
  history_toasts :: "history_toast list"

text \<open>
  \<^verbatim>\<open>handleClearExperiments\<close>, with the answer of \<^verbatim>\<open>confirm(...)\<close> and the outcome of the
  request. On success the handler removes the stored item and sets the state to \<^verbatim>\<open>{}\<close>;
  the effect then stores the new state. \<^verbatim>\<open>isClearing\<close> is set before the request and reset
  in \<^verbatim>\<open>finally\<close>.
\<close>

definition handleClearExperiments :: "bool \<Rightarrow> reset_response \<Rightarrow> history_world \<Rightarrow> history_world" where
  "handleClearExperiments confirmed resp w =
     (if \<not> confirmed then w
      else
        (case resp of
           ResetDone \<Rightarrow>
             w\<lparr>server_experiments := server_reset resp (server_experiments w),
               history_toasts := history_toasts w @ [ToastAllCleared],
               history := (history w)\<lparr>experiments := [], manualRatings := Map.empty,
                                      isClearing := False\<rparr>,
               stored_manualRatings :=
                 persistManualRatings ((history w)\<lparr>manualRatings := Map.empty\<rparr>)\<rparr>
         | ResetFailed err \<Rightarrow>
             w\<lparr>server_experiments := server_reset resp (server_experiments w),
               history_toasts := history_toasts w @ [ToastClearFailed],
               history := (history w)\<lparr>isClearing := False\<rparr>\<rparr>))"

section \<open>errorHandler.js: retryOperation\<close>

text \<open>
  \<^verbatim>\<open>operation\<close> is an asynchronous function that may answer differently each time it is
  called. Only \<^verbatim>\<open>retryOperation\<close> calls it, once per round of the loop, so it is given by
  the outcome of its call in round \<open>i\<close>.
\<close>

datatype 'a outcome = Resolved 'a | Rejected js_error

text \<open>\<^verbatim>\<open>error.response?.status === 400 || error.response?.status === 401\<close>\<close>

definition response_status :: "js_error \<Rightarrow> int option" where
  "response_status err = map_option status (response err)"

definition notRetried :: "js_error \<Rightarrow> bool" where
  "notRetried err = (response_status err = Some 400 \<or> response_status err = Some 401)"

text \<open>
  What one call of \<^verbatim>\<open>retryOperation\<close> did: the value it returned or the value it threw
  (\<^verbatim>\<open>lastError\<close> is \<^verbatim>\<open>undefined\<close>, here \<open>None\<close>, until an attempt has failed), how
  often it called \<^verbatim>\<open>operation\<close>, and the delays in milliseconds it passed to
  \<^verbatim>\<open>setTimeout\<close>, in order.
\<close>

record 'a retry_result =
  returned :: "js_error option + 'a"
  attempts :: nat
  waits :: "nat list"

text \<open>The \<^verbatim>\<open>for\<close> loop from round \<open>i\<close> on, with \<^verbatim>\<open>lastError\<close> and the delays so far.\<close>

function retry_loop ::
  "(nat \<Rightarrow> 'a outcome) \<Rightarrow> nat \<Rightarrow> nat \<Rightarrow> nat \<Rightarrow> js_error option \<Rightarrow> nat list
   \<Rightarrow> 'a retry_result" where
  "retry_loop operation maxRetries delay i lastError ws =
     (if i < maxRetries then
        (case operation i of
           Resolved v \<Rightarrow> \<lparr>returned = Inr v, attempts = i + 1, waits = ws\<rparr>
         | Rejected err \<Rightarrow>
             if notRetried err
             then \<lparr>returned = Inl (Some err), attempts = i + 1, waits = ws\<rparr>
             else if i < maxRetries - 1
             then retry_loop operation maxRetries delay (i + 1) (Some err)
                    (ws @ [delay * (i + 1)])
             else retry_loop operation maxRetries delay (i + 1) (Some err) ws)
      else \<lparr>returned = Inl lastError, attempts = i, waits = ws\<rparr>)"
  by pat_completeness auto
termination
  by (relation "measure (\<lambda>(operation, maxRetries, delay, i, lastError, ws). maxRetries - i)") auto

definition retryOperation :: "(nat \<Rightarrow> 'a outcome) \<Rightarrow> nat \<Rightarrow> nat \<Rightarrow> 'a retry_result" where
  "retryOperation operation maxRetries delay = retry_loop operation maxRetries delay 0 None []"

text \<open>The default parameters: \<^verbatim>\<open>maxRetries = 3, delay = 1000\<close>.\<close>

definition retryOperation_default :: "(nat \<Rightarrow> 'a outcome) \<Rightarrow> 'a retry_result" where
  "retryOperation_default operation = retryOperation operation 3 1000"

subsection \<open>The contract of the loop\<close>

text \<open>
  What a run of the loop that starts in round \<open>i\<close> with the delays \<open>ws\<close> has done when
  it ends: the attempts made, the delays added, the outcome of every attempt but the last
  (a failure that is retried), and the outcome of the last attempt, which is what the
  call returns or throws.
\<close>

definition loop_post ::
  "(nat \<Rightarrow> 'a outcome) \<Rightarrow> nat \<Rightarrow> nat \<Rightarrow> nat \<Rightarrow> nat list \<Rightarrow> 'a retry_result \<Rightarrow> bool" where
  "loop_post operation maxRetries delay i ws r =
     (i < attempts r \<and> attempts r \<le> maxRetries
      \<and> waits r = ws @ map (\<lambda>k. delay * (k + 1)) [i..<attempts r - 1]
      \<and> (\<forall>k. i \<le> k \<and> k < attempts r - 1 \<longrightarrow>
            (\<exists>err. operation k = Rejected err \<and> \<not> notRetried err))
      \<and> (case returned r of
            Inr v \<Rightarrow> operation (attempts r - 1) = Resolved v
          | Inl thrown \<Rightarrow>
              (\<exists>err. thrown = Some err \<and> operation (attempts r - 1) = Rejected err
                     \<and> (notRetried err \<or> attempts r = maxRetries))))"

section \<open>PromptTester.jsx\<close>

subsection \<open>JavaScript values\<close>

text \<open>
  What \<^verbatim>\<open>JSON.parse\<close> returns, and \<^verbatim>\<open>undefined\<close> for a property that is not there.
  An object is the list of its properties, each name once.
\<close>

datatype jsval =
    JUndefined
  | JNull
  | JBool bool
  | JNum real
  | JStr string
  | JArr "jsval list"
  | JObj "(string \<times> jsval) list"

datatype js_exception = TypeError | SyntaxError

fun truthy :: "jsval \<Rightarrow> bool" where
  "truthy JUndefined = False"
| "truthy JNull = False"
| "truthy (JBool b) = b"
| "truthy (JNum x) = (x \<noteq> 0)"
| "truthy (JStr s) = (s \<noteq> [])"
| "truthy (JArr xs) = True"
| "truthy (JObj kvs) = True"

text \<open>
  Reading a property \<^verbatim>\<open>v.key\<close>, for the keys the import reads (\<^verbatim>\<open>qa_pairs\<close>,
  \<^verbatim>\<open>system_context\<close>, \<^verbatim>\<open>samples\<close>, \<^verbatim>\<open>texts\<close>, \<^verbatim>\<open>question\<close>, \<^verbatim>\<open>answer\<close>,
  \<^verbatim>\<open>text\<close>, \<^verbatim>\<open>expected_answer\<close>): it throws on \<^verbatim>\<open>null\<close> and \<^verbatim>\<open>undefined\<close>, looks
  the key up in an object, and is \<^verbatim>\<open>undefined\<close> on an array, a string, a number or a
  boolean, none of which has a property of one of these names.
\<close>

fun getProp :: "jsval \<Rightarrow> string \<Rightarrow> js_exception + jsval" where
  "getProp JUndefined key = Inl TypeError"
| "getProp JNull key = Inl TypeError"
| "getProp (JObj kvs) key = (case map_of kvs key of None \<Rightarrow> Inr JUndefined | Some v \<Rightarrow> Inr v)"
| "getProp v key = Inr JUndefined"

text \<open>\<^verbatim>\<open>a || b\<close>\<close>

definition js_or :: "jsval \<Rightarrow> jsval \<Rightarrow> jsval" where
  "js_or a b = (if truthy a then a else b)"

fun isArray :: "jsval \<Rightarrow> bool" where
  "isArray (JArr xs) = True"
| "isArray v = False"

text \<open>
  \<^verbatim>\<open>v.map(f)\<close>: an exception of the callback ends the map; a value that is not an array
  has no function \<^verbatim>\<open>map\<close> (a parsed JSON document holds no function), so the call throws.
\<close>

fun mapM :: "('a \<Rightarrow> js_exception + 'b) \<Rightarrow> 'a list \<Rightarrow> js_exception + 'b list" where
  "mapM f [] = Inr []"
| "mapM f (x # xs) =
     (case f x of
        Inl e \<Rightarrow> Inl e
      | Inr y \<Rightarrow> (case mapM f xs of Inl e \<Rightarrow> Inl e | Inr ys \<Rightarrow> Inr (y # ys)))"

fun array_map :: "jsval \<Rightarrow> (jsval \<Rightarrow> js_exception + 'b) \<Rightarrow> js_exception + 'b list" where
  "array_map (JArr xs) f = mapM f xs"
| "array_map v f = Inl TypeError"

subsection \<open>The sample list\<close>

text \<open>
  A test sample \<^verbatim>\<open>{ text, expected_answer }\<close>; the manual entry and the third dataset
  layout build \<^verbatim>\<open>{ text }\<close> only.
\<close>

record sample =
  sample_text :: jsval
  expected_answer :: "jsval option"

datatype tester_toast =
    ToastMaximum10Samples
  | ToastLoadedSamples nat
  | ToastFailedToParse
  | ToastPleaseUploadJson

record prompt_tester =
  systemContext :: jsval
  prompt_template :: string
  testSamples :: "sample list"
  sampleInput :: string
  tester_toasts :: "tester_toast list"

text \<open>\<^verbatim>\<open>String.prototype.trim\<close> on the white space of ASCII.\<close>

definition is_space :: "char \<Rightarrow> bool" where
  "is_space c = (c \<in> set [CHR 0x20, CHR 0x09, CHR 0x0A, CHR 0x0B, CHR 0x0C, CHR 0x0D])"

definition trim :: "string \<Rightarrow> string" where
  "trim s = rev (dropWhile is_space (rev (dropWhile is_space s)))"

definition handleAddSample :: "prompt_tester \<Rightarrow> prompt_tester" where
  "handleAddSample st =
     (if trim (sampleInput st) \<noteq> [] \<and> length (testSamples st) < 10 then
        st\<lparr>testSamples :=
             testSamples st @ [\<lparr>sample_text = JStr (trim (sampleInput st)), expected_answer = None\<rparr>],
           sampleInput := []\<rparr>
      else if length (testSamples st) \<ge> 10 then
        st\<lparr>tester_toasts := tester_toasts st @ [ToastMaximum10Samples]\<rparr>
      else st)"

text \<open>\<^verbatim>\<open>testSamples.filter((_, i) => i !== index)\<close>\<close>

definition handleRemoveSample :: "nat \<Rightarrow> prompt_tester \<Rightarrow> prompt_tester" where
  "handleRemoveSample index st =
     st\<lparr>testSamples := map snd (filter (\<lambda>(i, x). i \<noteq> index)
                           (zip [0..<length (testSamples st)] (testSamples st)))\<rparr>"

subsection \<open>Dataset import\<close>

text \<open>The callbacks of the three \<^verbatim>\<open>map\<close> calls of \<^verbatim>\<open>handleFileUpload\<close>.\<close>

definition qaPairSample :: "jsval \<Rightarrow> js_exception + sample" where
  "qaPairSample pair =
     (case getProp pair ''question'' of
        Inl e \<Rightarrow> Inl e
      | Inr q \<Rightarrow>
          (case getProp pair ''answer'' of
             Inl e \<Rightarrow> Inl e
           | Inr a \<Rightarrow> Inr \<lparr>sample_text = q, expected_answer = Some a\<rparr>))"

definition arrayItemSample :: "jsval \<Rightarrow> js_exception + sample" where
  "arrayItemSample item =
     (case getProp item ''question'' of
        Inl e \<Rightarrow> Inl e
      | Inr q \<Rightarrow>
          (case getProp item ''text'' of
             Inl e \<Rightarrow> Inl e
           | Inr t \<Rightarrow>
               (case getProp item ''answer'' of
                  Inl e \<Rightarrow> Inl e
                | Inr a \<Rightarrow>
                    (case getProp item ''expected_answer'' of
                       Inl e \<Rightarrow> Inl e
                     | Inr ea \<Rightarrow>
                         Inr \<lparr>sample_text = js_or (js_or q t) item,
                              expected_answer = Some (js_or (js_or a ea) (JStr []))\<rparr>))))"

definition textSample :: "jsval \<Rightarrow> js_exception + sample" where
  "textSample item = Inr \<lparr>sample_text = item, expected_answer = None\<rparr>"

text \<open>
  The body of the \<^verbatim>\<open>try\<close> block after \<^verbatim>\<open>JSON.parse\<close>, up to the state setters: the
  samples to load, and the system context to set when the first layout carries one.
  The three branches are the source's \<^verbatim>\<open>if\<close> / \<^verbatim>\<open>else if\<close> / \<^verbatim>\<open>else if\<close>; with none of
  them taken \<^verbatim>\<open>samples\<close> keeps its initial value \<^verbatim>\<open>[]\<close>.
\<close>

definition readDataset :: "jsval \<Rightarrow> js_exception + sample list \<times> jsval option" where
  "readDataset jsonData =
     (case getProp jsonData ''qa_pairs'' of
        Inl e \<Rightarrow> Inl e
      | Inr qa_pairs \<Rightarrow>
          if truthy qa_pairs then
            (case array_map qa_pairs qaPairSample of
               Inl e \<Rightarrow> Inl e
             | Inr smps \<Rightarrow>
                 (case getProp jsonData ''system_context'' of
                    Inl e \<Rightarrow> Inl e
                  | Inr sc \<Rightarrow> Inr (smps, if truthy sc then Some sc else None)))
          else if isArray jsonData then
            (case array_map jsonData arrayItemSample of
               Inl e \<Rightarrow> Inl e
             | Inr smps \<Rightarrow> Inr (smps, None))
          else
            (case getProp jsonData ''samples'' of
               Inl e \<Rightarrow> Inl e
             | Inr a \<Rightarrow>
                 (case getProp jsonData ''texts'' of
                    Inl e \<Rightarrow> Inl e
                  | Inr b \<Rightarrow>
                      if truthy (js_or a b) then
                        (case array_map (js_or a b) textSample of
                           Inl e \<Rightarrow> Inl e
                         | Inr smps \<Rightarrow> Inr (smps, None))
                      else Inr ([], None))))"

record upload_file =
  file_type :: string
  file_name :: string

definition endsWith :: "string \<Rightarrow> string \<Rightarrow> bool" where
  "endsWith s suf = (length suf \<le> length s \<and> drop (length s - length suf) s = suf)"

text \<open>
  \<^verbatim>\<open>handleFileUpload\<close> with the file that was chosen (if any) and what \<^verbatim>\<open>JSON.parse\<close>
  made of its text: \<open>None\<close> when it threw a SyntaxError. Every exception of the
  \<^verbatim>\<open>try\<close> block ends in the same \<^verbatim>\<open>catch\<close>.
\<close>

definition handleFileUpload ::
  "upload_file option \<Rightarrow> jsval option \<Rightarrow> prompt_tester \<Rightarrow> prompt_tester" where
  "handleFileUpload file parsed st =
     (case file of
        None \<Rightarrow> st\<lparr>tester_toasts := tester_toasts st @ [ToastPleaseUploadJson]\<rparr>
      | Some f \<Rightarrow>
          if file_type f = ''application/json'' \<or> endsWith (file_name f) ''.json'' then
            (case parsed of
               None \<Rightarrow> st\<lparr>tester_toasts := tester_toasts st @ [ToastFailedToParse]\<rparr>
             | Some jsonData \<Rightarrow>
                 (case readDataset jsonData of
                    Inl e \<Rightarrow> st\<lparr>tester_toasts := tester_toasts st @ [ToastFailedToParse]\<rparr>
                  | Inr (smps, sc) \<Rightarrow>
                      (case sc of
                         None \<Rightarrow>
                           st\<lparr>testSamples := smps,
                              tester_toasts := tester_toasts st @ [ToastLoadedSamples (length smps)]\<rparr>
                       | Some c \<Rightarrow>
                           st\<lparr>systemContext := c,
                              prompt_template := ''Answer this question helpfully: {text}'',
                              testSamples := smps,
                              tester_toasts := tester_toasts st @ [ToastLoadedSamples (length smps)]\<rparr>)))
          else st\<lparr>tester_toasts := tester_toasts st @ [ToastPleaseUploadJson]\<rparr>)"

text \<open>The component's initial state.\<close>

definition initialTester :: prompt_tester where
  "initialTester =
     \<lparr>systemContext = JStr [],
      prompt_template = ''Answer this question: {text}'',
      testSamples = [\<lparr>sample_text = JStr ''How do I reset my password?'', expected_answer = None\<rparr>,
                     \<lparr>sample_text = JStr ''What are your business hours?'', expected_answer = None\<rparr>],
      sampleInput = [],
      tester_toasts = []\<rparr>"

section \<open>The spec's accuracy resolution\<close>

text \<open>The spec's \<open>resolve(experiment, ratingsByExperimentId)\<close>.\<close>

definition spec_resolve :: "experiment_data \<Rightarrow> overlay \<Rightarrow> real" where
  "spec_resolve E R =
     (case R (experiment_id E) of
        Some r \<Rightarrow> manual_rating.accuracy r
      | None \<Rightarrow> experiment_data.accuracy E)"


section \<open>Example values\<close>

text \<open>Two samples that succeeded and one that failed.\<close>

definition sample_ok :: sample_result where
  "sample_ok = \<lparr>input = ''2+2?'', output_text = Some ''4'', success = True, error = None,
                 tokens = 12, cost = 1 / 1000, accuracy = 0, expected = Some ''4''\<rparr>"

definition sample_ok2 :: sample_result where
  "sample_ok2 = \<lparr>input = ''5+5?'', output_text = Some ''10'', success = True, error = None,
                  tokens = 14, cost = 1 / 1000, accuracy = 0, expected = Some ''10''\<rparr>"

definition sample_failed :: sample_result where
  "sample_failed = \<lparr>input = ''3+3?'', output_text = None, success = False,
                     error = Some ''Invalid API key'', tokens = 0, cost = 0, accuracy = 0,
                     expected = None\<rparr>"

text \<open>Errors of an operation: a 503, a 401, and one without a response.\<close>

definition transient_error :: js_error where
  "transient_error = \<lparr>response = Some \<lparr>status = 503\<rparr>, message = ''Service unavailable''\<rparr>"

definition auth_error :: js_error where
  "auth_error = \<lparr>response = Some \<lparr>status = 401\<rparr>, message = ''Unauthorized''\<rparr>"

definition network_error :: js_error where
  "network_error = \<lparr>response = None, message = ''Network Error''\<rparr>"

text \<open>An operation that fails twice and then succeeds, and one that always answers 401.\<close>

definition flaky :: "nat \<Rightarrow> string outcome" where
  "flaky k = (if k = 0 then Rejected network_error
              else if k = 1 then Rejected transient_error else Resolved ''ok'')"

definition unauthorized :: "nat \<Rightarrow> string outcome" where
  "unauthorized k = Rejected auth_error"

text \<open>
  The two experiments of the spec's example: accuracy 0 with cost 0.01, and accuracy 80
  with cost 0.02.
\<close>

definition exp1 :: experiment_data where
  "exp1 = \<lparr>experiment_id = ''1'', prompt = ''Answer: {text}'', model = ''gpt-3.5-turbo'',
            created_at = ''2025-01-01T10:00:00'', samples_tested = 2, avg_tokens = 12,
            estimated_cost = Some (1 / 100), sample_results = Some [sample_ok, sample_failed],
            accuracy = 0, has_manual_rating = None, manual_accuracy = None,
            original_accuracy = None\<rparr>"

definition exp2 :: experiment_data where
  "exp2 = \<lparr>experiment_id = ''2'', prompt = ''Answer: {text}'', model = ''gpt-4o'',
            created_at = ''2025-01-01T11:00:00'', samples_tested = 2, avg_tokens = 15,
            estimated_cost = Some (2 / 100), sample_results = Some [sample_ok, sample_ok],
            accuracy = 80, has_manual_rating = None, manual_accuracy = None,
            original_accuracy = None\<rparr>"

text \<open>The single-result view as it first renders an experiment.\<close>

definition view_of :: "experiment_data \<Rightarrow> results_view" where
  "view_of ex = \<lparr>results = ex, manualAccuracy = None, allExperiments = []\<rparr>"

text \<open>
  A browser whose storage holds a rating of experiment 2, with the history list mounted
  and fetched, and a backend that holds both experiments.
\<close>

definition world0 :: history_world where
  "world0 =
     \<lparr>server_experiments = [exp1, exp2],
      stored_manualRatings =
        Some [''2'' \<mapsto> \<lparr>manual_rating.ratings = [(0, 4), (1, 5)], manual_rating.accuracy = 90\<rparr>],
      history =
        fetchExperiments (Inr (Some [exp1, exp2]))
          (mountHistory
             (Some [''2'' \<mapsto> \<lparr>manual_rating.ratings = [(0, 4), (1, 5)], manual_rating.accuracy = 90\<rparr>])),
      history_toasts = []\<rparr>"

definition json_file :: upload_file where
  "json_file = \<lparr>file_type = ''application/json'', file_name = ''dataset.json''\<rparr>"

text \<open>The document \<^verbatim>\<open>{"foo": 1}\<close>: none of the three layouts.\<close>

definition unrecognized_document :: jsval where
  "unrecognized_document = JObj [(''foo'', JNum 1)]"

text \<open>A bare array of eleven strings: the second layout.\<close>

definition eleven_questions :: jsval where
  "eleven_questions =
     JArr [JStr ''q1'', JStr ''q2'', JStr ''q3'', JStr ''q4'', JStr ''q5'', JStr ''q6'',
           JStr ''q7'', JStr ''q8'', JStr ''q9'', JStr ''q10'', JStr ''q11'']"

section \<open>Properties of the rating workflow\<close>

lemma samples_step: "samples (fst (step ev m)) = samples m"
  by (cases ev)
     (auto simp: handleRating_def autoAdvance_def handleNext_def handlePrevious_def onClose_def
           split: list.splits modal_view.splits)

lemma samples_run: "samples (run evs m) = samples m"
  by (induction evs arbitrary: m) (simp_all add: samples_step)

lemma modal_inv_open: "modal_inv (openModal smp)"
  by (simp add: modal_inv_def openModal_def)

lemma keys_update: "set (map fst (AList.update k v al)) = insert k (set (map fst al))"
  by (induction al) auto

lemma vals_update: "set (map snd (AList.update k v al)) \<subseteq> insert v (set (map snd al))"
  by (induction al) auto

lemma modal_inv_handleRating:
  assumes "modal_inv m" "1 \<le> star" "star \<le> 5" "currentIndex m < length (successfulSamples (samples m))"
  shows "modal_inv (handleRating star m)"
  using assms vals_update[of "currentIndex m" star "ratings m"]
  unfolding modal_inv_def handleRating_def list_all_iff
  by (auto simp: distinct_update keys_update simp del: set_map)

lemma render_Reviewing_D:
  "render m = Reviewing s i n \<Longrightarrow>
     isOpen m \<and> i = currentIndex m \<and> i < length (successfulSamples (samples m))
     \<and> n = length (successfulSamples (samples m)) \<and> s = successfulSamples (samples m) ! i"
  by (auto simp: render_def split: if_splits)

lemma modal_inv_autoAdvance:
  "modal_inv m \<Longrightarrow> modal_inv (autoAdvance captured m)"
  unfolding modal_inv_def autoAdvance_def by auto

lemma modal_inv_pop:
  "modal_inv m \<Longrightarrow> pending m = captured # rest \<Longrightarrow> modal_inv (m\<lparr>pending := rest\<rparr>)"
  unfolding modal_inv_def by auto

lemma modal_inv_handleNext: "modal_inv m \<Longrightarrow> modal_inv (handleNext m)"
  unfolding modal_inv_def handleNext_def by auto

lemma modal_inv_handlePrevious: "modal_inv m \<Longrightarrow> modal_inv (handlePrevious m)"
  unfolding modal_inv_def handlePrevious_def by auto

lemma modal_inv_onClose: "modal_inv m \<Longrightarrow> modal_inv (onClose m)"
  unfolding modal_inv_def onClose_def by auto

lemma modal_inv_step:
  assumes "modal_inv m" "valid_event ev"
  shows "modal_inv (fst (step ev m))"
proof (cases ev)
  case (Rate star)
  with assms show ?thesis
    by (auto split: modal_view.splits dest!: render_Reviewing_D intro: modal_inv_handleRating)
next
  case TimerFires
  with assms show ?thesis
    by (auto split: list.splits intro: modal_inv_autoAdvance modal_inv_pop)
next
  case Next
  with assms show ?thesis
    by (auto split: modal_view.splits intro: modal_inv_handleNext)
next
  case Previous
  with assms show ?thesis
    by (auto split: modal_view.splits intro: modal_inv_handlePrevious)
next
  case Save
  with assms show ?thesis
    by (auto split: modal_view.splits intro: modal_inv_onClose)
next
  case Close
  with assms show ?thesis
    by (auto split: modal_view.splits intro: modal_inv_onClose)
qed

lemma modal_inv_run:
  "modal_inv m \<Longrightarrow> list_all valid_event evs \<Longrightarrow> modal_inv (run evs m)"
  by (induction evs arbitrary: m) (simp_all add: modal_inv_step)

lemma modal_inv_session:
  "list_all valid_event evs \<Longrightarrow> modal_inv (run evs (openModal smp))"
  by (rule modal_inv_run [OF modal_inv_open])

lemma totalRating_sum_list: "totalRating m = sum_list (map snd (ratings m))"
proof -
  have "foldl (\<lambda>sum rating. sum + rating) a vs = a + sum_list vs" for a :: nat and vs
    by (induction vs arbitrary: a) simp_all
  then show ?thesis by (simp add: totalRating_def)
qed

lemma unrated_card:
  assumes "modal_inv m"
  shows "card {i. i < length (successfulSamples (samples m)) \<and> map_of (ratings m) i = None}
           = length (successfulSamples (samples m)) - length (ratings m)"
proof -
  let ?n = "length (successfulSamples (samples m))"
  let ?K = "set (map fst (ratings m))"
  from assms have d: "distinct (map fst (ratings m))" and sub: "?K \<subseteq> {..<?n}"
    by (auto simp: modal_inv_def list_all_iff)
  have "{i. i < ?n \<and> map_of (ratings m) i = None} = {..<?n} - ?K"
    by (auto simp: map_of_eq_None_iff)
  moreover have "card ({..<?n} - ?K) = card {..<?n} - card ?K"
    using sub by (simp add: card_Diff_subset)
  moreover have "card ?K = length (ratings m)"
    using d distinct_card by fastforce
  ultimately show ?thesis by simp
qed

lemma keys_le:
  assumes "modal_inv m"
  shows "length (ratings m) \<le> length (successfulSamples (samples m))"
proof -
  let ?n = "length (successfulSamples (samples m))"
  let ?K = "set (map fst (ratings m))"
  from assms have d: "distinct (map fst (ratings m))" and sub: "?K \<subseteq> {..<?n}"
    by (auto simp: modal_inv_def list_all_iff)
  have "card ?K \<le> card {..<?n}" using sub by (intro card_mono) auto
  moreover have "card ?K = length (ratings m)"
    using d distinct_card by fastforce
  ultimately show ?thesis by simp
qed

lemma unratedCount_card:
  assumes "modal_inv m"
  shows "unratedCount m =
           int (card {i. i < length (successfulSamples (samples m)) \<and> map_of (ratings m) i = None})"
  using keys_le [OF assms] by (simp add: unratedCount_def unrated_card [OF assms])

lemma unrated_iff:
  assumes "modal_inv m"
  shows "unratedCount m > 0 \<longleftrightarrow>
           (\<exists>i < length (successfulSamples (samples m)). map_of (ratings m) i = None)"
proof -
  let ?U = "{i. i < length (successfulSamples (samples m)) \<and> map_of (ratings m) i = None}"
  have "finite ?U" by simp
  then have "card ?U > 0 \<longleftrightarrow> ?U \<noteq> {}" by (simp add: card_gt_0_iff)
  then show ?thesis unfolding unratedCount_card [OF assms] by auto
qed

lemma spec_clamp_min_max: "min 100 (max 0 x) = spec_clamp 0 100 x"
  by (simp add: spec_clamp_def min_def max_def)

lemma averageAccuracy_spec:
  assumes "length (ratings m) = length (successfulSamples (samples m))"
  shows "averageAccuracy m = spec_accuracy (map snd (ratings m))"
proof -
  have "real (totalRating m) / real (length (successfulSamples (samples m)))
          = spec_mean (map snd (ratings m))"
    using assms by (simp add: spec_mean_def totalRating_sum_list)
  then show ?thesis
    unfolding averageAccuracy_def spec_accuracy_def by (simp only: spec_clamp_min_max)
qed

lemmas modal_eval =
  render_def successfulSamples_def openModal_def handleRating_def autoAdvance_def
  handleNext_def handlePrevious_def handleSave_def onClose_def unratedCount_def
  totalRating_def averageAccuracy_def sample_ok_def sample_ok2_def sample_failed_def

lemma remaining_count:
  assumes "modal_inv m"
  shows "length (filter (\<lambda>i. map_of (ratings m) i = None)
           [0..<length (successfulSamples (samples m))])
         = length (successfulSamples (samples m)) - length (ratings m)"
proof -
  have "length (filter (\<lambda>i. map_of (ratings m) i = None)
           [0..<length (successfulSamples (samples m))])
        = card {i. i < length (successfulSamples (samples m)) \<and> map_of (ratings m) i = None}"
    by (simp add: length_filter_conv_card cong: conj_cong)
  then show ?thesis by (simp add: unrated_card [OF assms])
qed

lemma unratedCount_remaining:
  assumes "modal_inv m"
  shows "unratedCount m = int (length (filter (\<lambda>i. map_of (ratings m) i = None)
           [0..<length (successfulSamples (samples m))]))"
  using keys_le [OF assms] by (simp add: unratedCount_def remaining_count [OF assms])

text \<open>
  Claim C7. The modal shows the reviewing view only for an experiment with a successful
  sample, and what it shows there is the sample at the current index of the successful
  samples in their original order, so never a failed one. For an experiment that has samples
  none of which succeeded, opening the modal shows the notice; its Close button closes the
  modal, and no sequence of events of the session reaches the reviewing view.
\<close>

theorem reviewing_shows_successful_samples_only:
  "(render m = Reviewing s i n \<longrightarrow>
      (\<exists>ys. samples m = Some ys \<and> (\<exists>x\<in>set ys. success x)
            \<and> i < length (filter success ys) \<and> n = length (filter success ys)
            \<and> s = filter success ys ! i \<and> success s \<and> s \<in> set ys))
   \<and> (xs \<noteq> [] \<and> list_all (\<lambda>x. \<not> success x) xs \<longrightarrow>
        render (openModal (Some xs)) = NoSamplesToRate
        \<and> step Close (openModal (Some xs)) = (onClose (openModal (Some xs)), [OnClose])
        \<and> render (onClose (openModal (Some xs))) = RenderNull
        \<and> render (run evs (openModal (Some xs))) \<in> {NoSamplesToRate, RenderNull})
   \<and> successfulSamples (Some xs) = filter success xs
   \<and> subseq (successfulSamples (Some xs)) xs"
proof (intro conjI impI)
  assume r: "render m = Reviewing s i n"
  from render_Reviewing_D [OF r]
  have i: "i < length (successfulSamples (samples m))"
    and n: "n = length (successfulSamples (samples m))"
    and s: "s = successfulSamples (samples m) ! i" by simp_all
  from i obtain ys where ys: "samples m = Some ys"
    by (cases "samples m") (simp_all add: successfulSamples_def)
  from ys i have i': "i < length (filter success ys)"
    by (simp add: successfulSamples_def)
  from ys n have n': "n = length (filter success ys)"
    by (simp add: successfulSamples_def)
  from ys s have s': "s = filter success ys ! i"
    by (simp add: successfulSamples_def)
  from i' s' have mem: "s \<in> set (filter success ys)"
    by (simp only: nth_mem)
  then have ok: "success s" and inys: "s \<in> set ys" by simp_all
  then have ex: "\<exists>x\<in>set ys. success x" by blast
  from ys ex i' n' s' ok inys
  show "\<exists>ys. samples m = Some ys \<and> (\<exists>x\<in>set ys. success x)
            \<and> i < length (filter success ys) \<and> n = length (filter success ys)
            \<and> s = filter success ys ! i \<and> success s \<and> s \<in> set ys"
    by blast
next
  assume a: "xs \<noteq> [] \<and> list_all (\<lambda>x. \<not> success x) xs"
  then have f: "filter success xs = []" by (simp add: list_all_iff filter_empty_conv)
  from a f show n: "render (openModal (Some xs)) = NoSamplesToRate"
    by (simp add: render_def openModal_def successfulSamples_def)
  then show "step Close (openModal (Some xs)) = (onClose (openModal (Some xs)), [OnClose])"
    by simp
  from f show "render (onClose (openModal (Some xs))) = RenderNull"
    by (simp add: render_def openModal_def successfulSamples_def onClose_def)
  have "samples (run evs (openModal (Some xs))) = Some xs"
    by (simp add: samples_run openModal_def)
  with a f show "render (run evs (openModal (Some xs))) \<in> {NoSamplesToRate, RenderNull}"
    by (simp add: render_def successfulSamples_def)
next
  show "successfulSamples (Some xs) = filter success xs"
    by (simp add: successfulSamples_def)
  show "subseq (successfulSamples (Some xs)) xs"
    by (simp add: successfulSamples_def)
qed

theorem reviewing_shows_successful_samples_only_witness:
  "render (run [Rate 3, TimerFires] (openModal (Some [sample_ok, sample_failed, sample_ok2])))
     = Reviewing sample_ok2 1 2
   \<and> (\<exists>x\<in>set [sample_ok, sample_failed, sample_ok2]. success x)
   \<and> [sample_failed, sample_failed] \<noteq> []
   \<and> list_all (\<lambda>x. \<not> success x) [sample_failed, sample_failed]
   \<and> render (openModal (Some [sample_failed, sample_failed])) = NoSamplesToRate
   \<and> render (run [Rate 5, Save, Close] (openModal (Some [sample_failed, sample_failed])))
       = RenderNull
   \<and> successfulSamples (Some [sample_ok, sample_failed, sample_ok2]) = [sample_ok, sample_ok2]"
  using reviewing_shows_successful_samples_only
          [of "run [Rate 3, TimerFires] (openModal (Some [sample_ok, sample_failed, sample_ok2]))"
              sample_ok2 1 2 "[sample_failed, sample_failed]" "[Rate 5, Save, Close]"]
  by (simp add: modal_eval)

lemma rated_all_length:
  assumes inv: "modal_inv m"
    and all: "list_all (\<lambda>k. map_of (ratings m) k \<noteq> None) [0..<length (successfulSamples (samples m))]"
  shows "length (ratings m) = length (successfulSamples (samples m))"
proof -
  from all have "filter (\<lambda>i. map_of (ratings m) i = None)
                   [0..<length (successfulSamples (samples m))] = []"
    by (simp add: list_all_iff filter_empty_conv)
  with remaining_count [OF inv]
  have "length (successfulSamples (samples m)) - length (ratings m) = 0" by simp
  with keys_le [OF inv] show ?thesis by simp
qed

lemma handleSave_incomplete:
  assumes inv: "modal_inv m"
    and some: "\<not> list_all (\<lambda>k. map_of (ratings m) k \<noteq> None) [0..<length (successfulSamples (samples m))]"
  shows "handleSave m = [ToastPleaseRateAll (int (length (filter (\<lambda>i. map_of (ratings m) i = None)
            [0..<length (successfulSamples (samples m))])))]"
    and "0 < length (filter (\<lambda>i. map_of (ratings m) i = None)
            [0..<length (successfulSamples (samples m))])"
proof -
  from some have ex: "\<exists>i<length (successfulSamples (samples m)). map_of (ratings m) i = None"
    by (auto simp: list_all_iff)
  then have pos: "unratedCount m > 0" by (simp add: unrated_iff [OF inv])
  then show "handleSave m = [ToastPleaseRateAll (int (length (filter (\<lambda>i. map_of (ratings m) i = None)
            [0..<length (successfulSamples (samples m))])))]"
    by (simp add: handleSave_def unratedCount_remaining [OF inv])
  from pos show "0 < length (filter (\<lambda>i. map_of (ratings m) i = None)
            [0..<length (successfulSamples (samples m))])"
    by (simp add: unratedCount_remaining [OF inv])
qed

lemma handleSave_complete:
  assumes inv: "modal_inv m"
    and all: "list_all (\<lambda>k. map_of (ratings m) k \<noteq> None) [0..<length (successfulSamples (samples m))]"
  shows "handleSave m = [OnSaveRatings (ratings m) (spec_accuracy (map snd (ratings m))),
                         ToastEvaluationComplete (spec_accuracy (map snd (ratings m))), OnClose]"
proof -
  from all have "\<not> (\<exists>i<length (successfulSamples (samples m)). map_of (ratings m) i = None)"
    by (auto simp: list_all_iff)
  then have "\<not> unratedCount m > 0" by (simp add: unrated_iff [OF inv])
  then show ?thesis
    by (simp add: handleSave_def averageAccuracy_spec [OF rated_all_length [OF inv all]])
qed

text \<open>
  Claim C8. In a session of the modal, \<^verbatim>\<open>handleSave\<close> calls \<^verbatim>\<open>onSaveRatings\<close> only when
  every index of the successful samples has a rating. Otherwise it shows the error toast
  that names the number of samples remaining and does nothing else: the state of the modal
  is the same (it stays open), no rating is handed to the parent and \<^verbatim>\<open>onClose\<close> is not
  called, so the parent's storage and network code is not reached.
\<close>

theorem save_needs_every_sample_rated:
  "list_all valid_event evs \<and> m = run evs (openModal smp) \<and> render m = Reviewing s i n \<longrightarrow>
     (\<not> rated_all m \<longrightarrow>
        0 < remaining m
        \<and> handleSave m = [ToastPleaseRateAll (int (remaining m))]
        \<and> step Save m = (m, [ToastPleaseRateAll (int (remaining m))]))
     \<and> ((\<exists>r a. OnSaveRatings r a \<in> set (snd (step Save m))) \<longrightarrow> rated_all m)
     \<and> (rated_all m \<longleftrightarrow> (\<forall>k<n. \<exists>star. map_of (ratings m) k = Some star))"
proof (intro impI, elim conjE)
  assume v: "list_all valid_event evs" and m: "m = run evs (openModal smp)"
    and r: "render m = Reviewing s i n"
  from v m have inv: "modal_inv m" by (simp add: modal_inv_session)
  from render_Reviewing_D [OF r] have n: "n = length (successfulSamples (samples m))" by simp
  have step: "step Save m = (if OnClose \<in> set (handleSave m) then onClose m else m, handleSave m)"
    using r by simp
  have a: "\<not> rated_all m \<longrightarrow>
        0 < remaining m
        \<and> handleSave m = [ToastPleaseRateAll (int (remaining m))]
        \<and> step Save m = (m, [ToastPleaseRateAll (int (remaining m))])"
    using handleSave_incomplete [OF inv] unfolding rated_all_def remaining_def step by simp
  have b: "(\<exists>r a. OnSaveRatings r a \<in> set (snd (step Save m))) \<longrightarrow> rated_all m"
    using a unfolding step by (cases "rated_all m") auto
  have c: "rated_all m \<longleftrightarrow> (\<forall>k<n. \<exists>star. map_of (ratings m) k = Some star)"
    unfolding rated_all_def n by (auto simp: list_all_iff)
  from a b c show "(\<not> rated_all m \<longrightarrow>
        0 < remaining m
        \<and> handleSave m = [ToastPleaseRateAll (int (remaining m))]
        \<and> step Save m = (m, [ToastPleaseRateAll (int (remaining m))]))
     \<and> ((\<exists>r a. OnSaveRatings r a \<in> set (snd (step Save m))) \<longrightarrow> rated_all m)
     \<and> (rated_all m \<longleftrightarrow> (\<forall>k<n. \<exists>star. map_of (ratings m) k = Some star))"
    by blast
qed

theorem save_needs_every_sample_rated_witness:
  "list_all valid_event [Rate 4, TimerFires, Rate 2]
   \<and> render (run [Rate 4, TimerFires, Rate 2]
         (openModal (Some [sample_ok, sample_failed, sample_ok, sample_ok]))) = Reviewing sample_ok 1 3
   \<and> remaining (run [Rate 4, TimerFires, Rate 2]
         (openModal (Some [sample_ok, sample_failed, sample_ok, sample_ok]))) = 1
   \<and> step Save (run [Rate 4, TimerFires, Rate 2]
         (openModal (Some [sample_ok, sample_failed, sample_ok, sample_ok])))
      = (run [Rate 4, TimerFires, Rate 2]
         (openModal (Some [sample_ok, sample_failed, sample_ok, sample_ok])), [ToastPleaseRateAll 1])"
  using save_needs_every_sample_rated
          [of "[Rate 4, TimerFires, Rate 2]"
              "run [Rate 4, TimerFires, Rate 2]
                 (openModal (Some [sample_ok, sample_failed, sample_ok, sample_ok]))"
              "Some [sample_ok, sample_failed, sample_ok, sample_ok]" sample_ok 1 3]
  by (simp add: modal_eval remaining_def rated_all_def upt_rec)

text \<open>
  Claim C2. When every index of the successful samples is rated, \<^verbatim>\<open>handleSave\<close> hands the
  parent the accuracy \<open>clamp 0 100 (mean (values of ratings) * 20)\<close>, one value per
  successful sample, and closes the modal. Three samples rated 5, 5, 5 give 100; rated
  2, 3, 4 they give 60.
\<close>

theorem save_emits_clamped_mean:
  "(list_all valid_event evs \<and> m = run evs (openModal smp) \<and> render m = Reviewing s i n
      \<and> rated_all m \<longrightarrow>
        length (ratings m) = n
        \<and> step Save m =
            (onClose m,
             [OnSaveRatings (ratings m) (spec_accuracy (map snd (ratings m))),
              ToastEvaluationComplete (spec_accuracy (map snd (ratings m))), OnClose]))
   \<and> snd (step Save (run [Rate 5, TimerFires, Rate 5, TimerFires, Rate 5]
             (openModal (Some [sample_ok, sample_ok, sample_ok]))))
       = [OnSaveRatings [(0, 5), (1, 5), (2, 5)] 100, ToastEvaluationComplete 100, OnClose]
   \<and> snd (step Save (run [Rate 2, TimerFires, Rate 3, TimerFires, Rate 4]
             (openModal (Some [sample_ok, sample_ok, sample_ok]))))
       = [OnSaveRatings [(0, 2), (1, 3), (2, 4)] 60, ToastEvaluationComplete 60, OnClose]"
proof (intro conjI impI)
  assume a: "list_all valid_event evs \<and> m = run evs (openModal smp)
      \<and> render m = Reviewing s i n \<and> rated_all m"
  then have inv: "modal_inv m" by (simp add: modal_inv_session)
  from a have r: "render m = Reviewing s i n" by blast
  from render_Reviewing_D [OF r] have n: "n = length (successfulSamples (samples m))" by simp
  from a have "rated_all m" by blast
  then have all: "list_all (\<lambda>k. map_of (ratings m) k \<noteq> None)
                      [0..<length (successfulSamples (samples m))]"
    by (simp add: rated_all_def)
  show "length (ratings m) = n"
    using rated_all_length [OF inv all] n by simp
  show "step Save m =
            (onClose m,
             [OnSaveRatings (ratings m) (spec_accuracy (map snd (ratings m))),
              ToastEvaluationComplete (spec_accuracy (map snd (ratings m))), OnClose])"
    using r by (simp add: handleSave_complete [OF inv all])
next
  show "snd (step Save (run [Rate 5, TimerFires, Rate 5, TimerFires, Rate 5]
             (openModal (Some [sample_ok, sample_ok, sample_ok]))))
       = [OnSaveRatings [(0, 5), (1, 5), (2, 5)] 100, ToastEvaluationComplete 100, OnClose]"
    by (simp add: modal_eval)
  show "snd (step Save (run [Rate 2, TimerFires, Rate 3, TimerFires, Rate 4]
             (openModal (Some [sample_ok, sample_ok, sample_ok]))))
       = [OnSaveRatings [(0, 2), (1, 3), (2, 4)] 60, ToastEvaluationComplete 60, OnClose]"
    by (simp add: modal_eval)
qed

theorem save_emits_clamped_mean_witness:
  "list_all valid_event [Rate 1, TimerFires, Rate 4, Previous, Rate 3]
   \<and> render (run [Rate 1, TimerFires, Rate 4, Previous, Rate 3]
         (openModal (Some [sample_failed, sample_ok, sample_ok]))) = Reviewing sample_ok 0 2
   \<and> rated_all (run [Rate 1, TimerFires, Rate 4, Previous, Rate 3]
         (openModal (Some [sample_failed, sample_ok, sample_ok])))
   \<and> spec_accuracy [3, 4] = 70
   \<and> snd (step Save (run [Rate 1, TimerFires, Rate 4, Previous, Rate 3]
         (openModal (Some [sample_failed, sample_ok, sample_ok]))))
      = [OnSaveRatings [(0, 3), (1, 4)] 70, ToastEvaluationComplete 70, OnClose]"
  using save_emits_clamped_mean
          [of "[Rate 1, TimerFires, Rate 4, Previous, Rate 3]"
              "run [Rate 1, TimerFires, Rate 4, Previous, Rate 3]
                 (openModal (Some [sample_failed, sample_ok, sample_ok]))"
              "Some [sample_failed, sample_ok, sample_ok]" sample_ok 0 2]
  by (simp add: modal_eval rated_all_def upt_rec spec_accuracy_def spec_mean_def spec_clamp_def)

section \<open>Properties of retryOperation\<close>

declare retry_loop.simps [simp del]

lemma retry_loop_done:
  "\<not> i < maxRetries \<Longrightarrow>
     retry_loop operation maxRetries delay i lastError ws
       = \<lparr>returned = Inl lastError, attempts = i, waits = ws\<rparr>"
  by (subst retry_loop.simps) simp

lemma retry_loop_resolved:
  "i < maxRetries \<Longrightarrow> operation i = Resolved v \<Longrightarrow>
     retry_loop operation maxRetries delay i lastError ws
       = \<lparr>returned = Inr v, attempts = i + 1, waits = ws\<rparr>"
  by (subst retry_loop.simps) simp

lemma retry_loop_rethrow:
  "i < maxRetries \<Longrightarrow> operation i = Rejected err \<Longrightarrow> notRetried err \<Longrightarrow>
     retry_loop operation maxRetries delay i lastError ws
       = \<lparr>returned = Inl (Some err), attempts = i + 1, waits = ws\<rparr>"
  by (subst retry_loop.simps) simp

lemma retry_loop_again:
  "i < maxRetries - 1 \<Longrightarrow> operation i = Rejected err \<Longrightarrow> \<not> notRetried err \<Longrightarrow>
     retry_loop operation maxRetries delay i lastError ws
       = retry_loop operation maxRetries delay (i + 1) (Some err) (ws @ [delay * (i + 1)])"
  by (subst retry_loop.simps) simp

lemma retry_loop_last:
  "i < maxRetries \<Longrightarrow> \<not> i < maxRetries - 1 \<Longrightarrow> operation i = Rejected err \<Longrightarrow>
   \<not> notRetried err \<Longrightarrow>
     retry_loop operation maxRetries delay i lastError ws
       = \<lparr>returned = Inl (Some err), attempts = i + 1, waits = ws\<rparr>"
proof -
  assume a: "i < maxRetries" "\<not> i < maxRetries - 1" "operation i = Rejected err"
    "\<not> notRetried err"
  then have "\<not> i + 1 < maxRetries" by simp
  from retry_loop_done [OF this] a show ?thesis
    by (subst retry_loop.simps) simp
qed

lemma loop_post_again:
  assumes "i < maxRetries - 1" "operation i = Rejected err" "\<not> notRetried err"
    and p: "loop_post operation maxRetries delay (i + 1) (ws @ [delay * (i + 1)]) r"
  shows "loop_post operation maxRetries delay i ws r"
proof -
  from p have a: "i + 1 < attempts r" by (simp add: loop_post_def)
  then have upt: "[i..<attempts r - 1] = i # [i + 1..<attempts r - 1]"
    by (simp add: upt_conv_Cons)
  have "\<forall>k. i \<le> k \<and> k < attempts r - 1 \<longrightarrow>
            (\<exists>err. operation k = Rejected err \<and> \<not> notRetried err)"
  proof (intro allI impI)
    fix k assume k: "i \<le> k \<and> k < attempts r - 1"
    show "\<exists>err. operation k = Rejected err \<and> \<not> notRetried err"
    proof (cases "k = i")
      case True with assms show ?thesis by simp
    next
      case False
      with k have "i + 1 \<le> k \<and> k < attempts r - 1" by simp
      with p show ?thesis unfolding loop_post_def by blast
    qed
  qed
  with p a upt show ?thesis by (simp add: loop_post_def)
qed

lemma retry_loop_post:
  "i < maxRetries \<Longrightarrow>
     loop_post operation maxRetries delay i ws
       (retry_loop operation maxRetries delay i lastError ws)"
proof (induction "maxRetries - i" arbitrary: i lastError ws)
  case 0
  then show ?case by simp
next
  case (Suc n)
  show ?case
  proof (cases "operation i")
    case (Resolved v)
    with Suc.prems show ?thesis
      by (auto simp: retry_loop_resolved loop_post_def)
  next
    case (Rejected err)
    show ?thesis
    proof (cases "notRetried err")
      case True
      with Rejected Suc.prems show ?thesis
        by (auto simp: retry_loop_rethrow loop_post_def)
    next
      case False
      show ?thesis
      proof (cases "i < maxRetries - 1")
        case True
        with Suc.hyps(2) have "n = maxRetries - (i + 1)" "i + 1 < maxRetries" by simp_all
        from Suc.hyps(1) [OF this]
        have "loop_post operation maxRetries delay (i + 1) (ws @ [delay * (i + 1)])
                (retry_loop operation maxRetries delay (i + 1) (Some err) (ws @ [delay * (i + 1)]))" .
        from loop_post_again [OF True Rejected False this]
        show ?thesis
          using retry_loop_again [of i maxRetries operation err delay lastError ws]
            True Rejected False by simp
      next
        case last: False
        from retry_loop_last [of i maxRetries operation err delay lastError ws]
          Suc.prems last Rejected False
        show ?thesis by (auto simp: loop_post_def)
      qed
    qed
  qed
qed

text \<open>
  Claim C4. \<^verbatim>\<open>retryOperation\<close> calls the operation at most \<^verbatim>\<open>maxRetries\<close> times (three by
  default) and waits \<open>delay * attempt\<close> after each failed attempt but the last. An operation
  that fails twice with errors that are retried and then succeeds gives its value on the
  third attempt; an error whose response has status 400 or 401 is thrown again after the
  attempt that met it, after exactly one attempt when it is the first; when every attempt
  fails, the error of the last attempt made is thrown.
\<close>

theorem retryOperation_bounded_linear_backoff:
  "(0 < maxRetries \<longrightarrow>
      attempts (retryOperation operation maxRetries delay) \<le> maxRetries
      \<and> 1 \<le> attempts (retryOperation operation maxRetries delay)
      \<and> waits (retryOperation operation maxRetries delay)
           = map (\<lambda>k. delay * (k + 1)) [0..<attempts (retryOperation operation maxRetries delay) - 1])
   \<and> attempts (retryOperation operation 3 delay) \<le> 3
   \<and> (operation 0 = Rejected e1 \<and> \<not> notRetried e1 \<and> operation 1 = Rejected e2
       \<and> \<not> notRetried e2 \<and> operation 2 = Resolved v \<longrightarrow>
         retryOperation operation 3 delay
           = \<lparr>returned = Inr v, attempts = 3, waits = [delay * 1, delay * 2]\<rparr>)
   \<and> (operation 0 = Rejected e1 \<and> notRetried e1 \<and> 0 < maxRetries \<longrightarrow>
         retryOperation operation maxRetries delay
           = \<lparr>returned = Inl (Some e1), attempts = 1, waits = []\<rparr>)
   \<and> (0 < maxRetries \<and> (\<forall>k<maxRetries. \<exists>err. operation k = Rejected err) \<longrightarrow>
         (\<exists>err. returned (retryOperation operation maxRetries delay) = Inl (Some err)
                \<and> operation (attempts (retryOperation operation maxRetries delay) - 1) = Rejected err
                \<and> (notRetried err \<or> attempts (retryOperation operation maxRetries delay) = maxRetries)))"
proof (intro conjI impI)
  assume m: "0 < maxRetries"
  from retry_loop_post [OF m, of operation delay "[]" None]
  have p: "loop_post operation maxRetries delay 0 [] (retryOperation operation maxRetries delay)"
    by (simp add: retryOperation_def)
  from p show "attempts (retryOperation operation maxRetries delay) \<le> maxRetries"
    by (simp add: loop_post_def)
  from p show "1 \<le> attempts (retryOperation operation maxRetries delay)"
    by (simp add: loop_post_def)
  from p show "waits (retryOperation operation maxRetries delay)
           = map (\<lambda>k. delay * (k + 1)) [0..<attempts (retryOperation operation maxRetries delay) - 1]"
    by (simp add: loop_post_def)
next
  from retry_loop_post [of 0 3 operation delay "[]" None]
  show "attempts (retryOperation operation 3 delay) \<le> 3"
    by (simp add: retryOperation_def loop_post_def)
next
  assume a: "operation 0 = Rejected e1 \<and> \<not> notRetried e1 \<and> operation 1 = Rejected e2
       \<and> \<not> notRetried e2 \<and> operation 2 = Resolved v"
  have "retry_loop operation 3 delay 0 None []
          = retry_loop operation 3 delay (0 + 1) (Some e1) ([] @ [delay * (0 + 1)])"
    using a by (intro retry_loop_again) simp_all
  also have "\<dots> = retry_loop operation 3 delay (1 + 1) (Some e2) ([delay] @ [delay * (1 + 1)])"
    using a retry_loop_again [of 1 3 operation e2 delay "Some e1" "[delay]"] by simp
  also have "\<dots> = \<lparr>returned = Inr v, attempts = 3, waits = [delay * 1, delay * 2]\<rparr>"
    using a retry_loop_resolved [of 2 3 operation v delay "Some e2" "[delay, delay * 2]"]
    by (simp add: numeral_2_eq_2)
  finally show "retryOperation operation 3 delay
           = \<lparr>returned = Inr v, attempts = 3, waits = [delay * 1, delay * 2]\<rparr>"
    by (simp add: retryOperation_def)
next
  assume "operation 0 = Rejected e1 \<and> notRetried e1 \<and> 0 < maxRetries"
  then show "retryOperation operation maxRetries delay
           = \<lparr>returned = Inl (Some e1), attempts = 1, waits = []\<rparr>"
    by (simp add: retryOperation_def retry_loop_rethrow)
next
  assume a: "0 < maxRetries \<and> (\<forall>k<maxRetries. \<exists>err. operation k = Rejected err)"
  then have m: "0 < maxRetries" by simp
  from retry_loop_post [OF m, of operation delay "[]" None]
  have p: "loop_post operation maxRetries delay 0 [] (retryOperation operation maxRetries delay)"
    by (simp add: retryOperation_def)
  let ?r = "retryOperation operation maxRetries delay"
  from p have "0 < attempts ?r" "attempts ?r \<le> maxRetries" by (simp_all add: loop_post_def)
  then have lt: "attempts ?r - 1 < maxRetries" by arith
  with a obtain err where err: "operation (attempts ?r - 1) = Rejected err" by blast
  show "\<exists>err. returned ?r = Inl (Some err)
                \<and> operation (attempts ?r - 1) = Rejected err
                \<and> (notRetried err \<or> attempts ?r = maxRetries)"
  proof (cases "returned ?r")
    case (Inl thrown)
    with p show ?thesis by (simp add: loop_post_def)
  next
    case (Inr v)
    with p have "operation (attempts ?r - 1) = Resolved v" by (simp add: loop_post_def)
    with err show ?thesis by simp
  qed
qed

lemmas retry_eval =
  retryOperation_def retryOperation_default_def retry_loop.simps notRetried_def
  response_status_def flaky_def unauthorized_def transient_error_def auth_error_def
  network_error_def

theorem retryOperation_bounded_linear_backoff_witness:
  "flaky 0 = Rejected network_error \<and> \<not> notRetried network_error
   \<and> flaky 1 = Rejected transient_error \<and> \<not> notRetried transient_error
   \<and> flaky 2 = Resolved ''ok''
   \<and> retryOperation_default flaky
       = \<lparr>returned = Inr ''ok'', attempts = 3, waits = [1000, 2000]\<rparr>
   \<and> unauthorized 0 = Rejected auth_error \<and> notRetried auth_error
   \<and> retryOperation_default unauthorized
       = \<lparr>returned = Inl (Some auth_error), attempts = 1, waits = []\<rparr>
   \<and> retryOperation_default (\<lambda>k. Rejected transient_error :: string outcome)
       = \<lparr>returned = Inl (Some transient_error), attempts = 3, waits = [1000, 2000]\<rparr>"
  using retryOperation_bounded_linear_backoff
          [of 3 flaky 1000 network_error transient_error "''ok''"]
        retryOperation_bounded_linear_backoff
          [of 3 unauthorized 1000 auth_error auth_error "''ok''"]
  by (simp add: retry_eval)

section \<open>Properties of the results view and the history list\<close>

lemmas view_eval =
  spec_resolve_def exp1_def exp2_def view_of_def withRating_def fetchAllExperiments_def
  readManualRatings_def experiments_or_empty_def ResultsView_handleSaveRatings_def
  displayAccuracy_def evaluated_def truthy_num_def toChartPoint_def chartData_def
  mountHistory_def persistManualRatings_def withManualAccuracy_def fetchExperiments_def
  handleRateExperiment_def ExperimentHistory_handleSaveRatings_def saveInHistory_def
  failedCount_def totalCount_def allFailed_def accuracyBadge_def server_reset_def
  handleClearExperiments_def sample_ok_def sample_failed_def

lemma withRating_id: "experiment_id (withRating R ex) = experiment_id ex"
  by (simp add: withRating_def split: option.splits)

lemma withRating_cost: "estimated_cost (withRating R ex) = estimated_cost ex"
  by (simp add: withRating_def split: option.splits)

lemma withRating_accuracy: "experiment_data.accuracy (withRating R ex) = spec_resolve ex R"
  by (simp add: withRating_def spec_resolve_def split: option.splits)

lemma withManualAccuracy_id: "experiment_id (withManualAccuracy R ex) = experiment_id ex"
  by (simp add: withManualAccuracy_def split: option.splits)

lemma chart_ids: "map experimentId (map (toChartPoint res) xs) = map experiment_id xs"
  by (simp add: toChartPoint_def)

lemma evaluated_iff:
  "evaluated ex \<longleftrightarrow>
     0 < experiment_data.accuracy ex \<and> (\<exists>c. estimated_cost ex = Some c \<and> c \<noteq> 0)"
  by (simp add: evaluated_def truthy_num_def split: option.splits)

lemma filter_evaluated_merged:
  "map experiment_id (filter evaluated (map (withRating R) xs))
     = map experiment_id
         (filter (\<lambda>e. 0 < spec_resolve e R \<and> (\<exists>c. estimated_cost e = Some c \<and> c \<noteq> 0)) xs)"
  by (induction xs)
     (simp_all add: evaluated_iff withRating_accuracy withRating_cost withRating_id)

text \<open>
  Claim C5. The chart data holds a point for exactly the experiments of the merged list
  whose accuracy is greater than 0 and whose \<^verbatim>\<open>estimated_cost\<close> is truthy, in the order
  of the list; over what the backend sent and the stored overlay, these are the experiments
  whose effective accuracy is greater than 0. Of the spec's two experiments only the second
  has a point. The history list keeps every experiment the backend sent.
\<close>

theorem chart_keeps_evaluated_experiments:
  "map experimentId (chartData rv)
     = map experiment_id
         (filter (\<lambda>e. 0 < experiment_data.accuracy e \<and> (\<exists>c. estimated_cost e = Some c \<and> c \<noteq> 0))
            (allExperiments rv))
   \<and> map experimentId (chartData (fetchAllExperiments (Inr (Some exps)) stored rv))
       = map experiment_id
           (filter (\<lambda>e. 0 < spec_resolve e (readManualRatings stored)
                         \<and> (\<exists>c. estimated_cost e = Some c \<and> c \<noteq> 0)) exps)
   \<and> map experimentId (chartData (fetchAllExperiments (Inr (Some [exp1, exp2])) None rv)) = [''2'']
   \<and> map experiment_id (experiments (fetchExperiments (Inr (Some exps)) h)) = map experiment_id exps"
proof (intro conjI)
  have "filter evaluated xs
          = filter (\<lambda>e. 0 < experiment_data.accuracy e \<and> (\<exists>c. estimated_cost e = Some c \<and> c \<noteq> 0)) xs"
    for xs by (rule filter_cong) (simp_all add: evaluated_iff)
  then show "map experimentId (chartData rv)
     = map experiment_id
         (filter (\<lambda>e. 0 < experiment_data.accuracy e \<and> (\<exists>c. estimated_cost e = Some c \<and> c \<noteq> 0))
            (allExperiments rv))"
    by (simp only: chartData_def chart_ids)
  show "map experimentId (chartData (fetchAllExperiments (Inr (Some exps)) stored rv))
       = map experiment_id
           (filter (\<lambda>e. 0 < spec_resolve e (readManualRatings stored)
                         \<and> (\<exists>c. estimated_cost e = Some c \<and> c \<noteq> 0)) exps)"
  proof -
    have "allExperiments (fetchAllExperiments (Inr (Some exps)) stored rv)
            = map (withRating (readManualRatings stored)) exps"
      by (simp add: fetchAllExperiments_def experiments_or_empty_def)
    then show ?thesis
      by (simp only: chartData_def chart_ids filter_evaluated_merged)
  qed
  show "map experimentId (chartData (fetchAllExperiments (Inr (Some [exp1, exp2])) None rv)) = [''2'']"
    by (simp add: view_eval)
  show "map experiment_id (experiments (fetchExperiments (Inr (Some exps)) h)) = map experiment_id exps"
    by (simp add: fetchExperiments_def experiments_or_empty_def withManualAccuracy_id)
qed

theorem chart_keeps_evaluated_experiments_witness:
  "map experimentId
     (chartData (fetchAllExperiments (Inr (Some [exp1, exp2]))
        (Some [''1'' \<mapsto> \<lparr>manual_rating.ratings = [(0, 3)], manual_rating.accuracy = 60\<rparr>])
        (view_of exp2)))
     = [''1'', ''2'']
   \<and> map experiment_id (experiments (fetchExperiments (Inr (Some [exp1, exp2])) (mountHistory None)))
       = [''1'', ''2'']"
  using chart_keeps_evaluated_experiments
          [of "view_of exp2" "[exp1, exp2]"
              "Some [''1'' \<mapsto> \<lparr>manual_rating.ratings = [(0, 3)], manual_rating.accuracy = 60\<rparr>]"
              "mountHistory None"]
  by (simp add: view_eval)













text \<open>
  Claim C3. After a confirmed Clear All whose request succeeded, the backend holds no
  experiment and the component's list, its \<^verbatim>\<open>manualRatings\<close> and the stored overlay are
  empty. When the request failed, all four are what they were. Without the confirmation
  nothing happens.
\<close>

theorem clear_all_is_all_or_nothing:
  "server_experiments (handleClearExperiments True ResetDone w) = []
   \<and> experiments (history (handleClearExperiments True ResetDone w)) = []
   \<and> manualRatings (history (handleClearExperiments True ResetDone w)) = Map.empty
   \<and> readManualRatings (stored_manualRatings (handleClearExperiments True ResetDone w)) = Map.empty
   \<and> server_experiments (handleClearExperiments True (ResetFailed err) w) = server_experiments w
   \<and> experiments (history (handleClearExperiments True (ResetFailed err) w))
       = experiments (history w)
   \<and> manualRatings (history (handleClearExperiments True (ResetFailed err) w))
       = manualRatings (history w)
   \<and> stored_manualRatings (handleClearExperiments True (ResetFailed err) w)
       = stored_manualRatings w
   \<and> handleClearExperiments False resp w = w"
  by (simp add: handleClearExperiments_def server_reset_def persistManualRatings_def
        readManualRatings_def)

theorem clear_all_is_all_or_nothing_witness:
  "map experiment_id (experiments (history world0)) = [''1'', ''2'']
   \<and> dom (manualRatings (history world0)) = {''2''}
   \<and> server_experiments (handleClearExperiments True ResetDone world0) = []
   \<and> experiments (history (handleClearExperiments True ResetDone world0)) = []
   \<and> dom (manualRatings (history (handleClearExperiments True ResetDone world0))) = {}
   \<and> dom (readManualRatings (stored_manualRatings (handleClearExperiments True ResetDone world0))) = {}
   \<and> dom (manualRatings (history (handleClearExperiments True (ResetFailed network_error) world0)))
       = {''2''}
   \<and> map experiment_id
        (experiments (history (handleClearExperiments True (ResetFailed network_error) world0)))
       = [''1'', ''2'']"
  using clear_all_is_all_or_nothing [of world0 network_error ResetDone]
  by (simp add: view_eval world0_def)

lemma ResultsView_save_frame:
  "Y \<noteq> experiment_id (results rv) \<Longrightarrow>
     readManualRatings (snd (ResultsView_handleSaveRatings rs avg resp (rv, stored))) Y
       = readManualRatings stored Y"
  by (simp add: ResultsView_handleSaveRatings_def readManualRatings_def)

lemma ExperimentHistory_save_frame_state:
  "ExperimentHistory_handleSaveRatings rs avg h = Some h' \<Longrightarrow> selectedExperiment h = Some sel \<Longrightarrow>
   Y \<noteq> experiment_id sel \<Longrightarrow> manualRatings h' Y = manualRatings h Y"
  by (auto simp: ExperimentHistory_handleSaveRatings_def)

lemma saveInHistory_stored:
  "selectedExperiment h = Some sel \<Longrightarrow> Y \<noteq> experiment_id sel \<Longrightarrow>
     readManualRatings (snd (saveInHistory rs avg (h, stored))) Y = manualRatings h Y"
  by (simp add: saveInHistory_def ExperimentHistory_handleSaveRatings_def
        persistManualRatings_def readManualRatings_def)

text \<open>
  Claim C10 at a failing input. The history list mounts on an empty storage; the
  single-result view saves a rating for experiment 1, which is then stored; a rating for
  experiment 2 saved in the history list stores the component's own \<^verbatim>\<open>manualRatings\<close> with
  the new entry, and the stored entry of experiment 1 is gone.
\<close>

theorem history_save_drops_entry_saved_in_results_view:
  "readManualRatings
     (snd (ResultsView_handleSaveRatings [(0, 5)] 100 (Inr (Some [exp1, exp2])) (view_of exp1, None)))
     ''1''
     = Some \<lparr>manual_rating.ratings = [(0, 5)], manual_rating.accuracy = 100\<rparr>
   \<and> readManualRatings
       (snd (saveInHistory [(0, 4), (1, 4)] 80
          (handleRateExperiment exp2 (mountHistory None),
           snd (ResultsView_handleSaveRatings [(0, 5)] 100 (Inr (Some [exp1, exp2]))
                  (view_of exp1, None)))))
       ''1''
     = None"
  by (simp add: view_eval)

section \<open>Properties of the sample list\<close>

lemmas tester_eval =
  json_file_def unrecognized_document_def eleven_questions_def initialTester_def
  handleFileUpload_def readDataset_def qaPairSample_def arrayItemSample_def textSample_def
  js_or_def endsWith_def handleAddSample_def trim_def is_space_def

lemma handleAddSample_cap:
  "length (testSamples st) \<le> 10 \<Longrightarrow> length (testSamples (handleAddSample st)) \<le> 10"
  by (simp add: handleAddSample_def)

lemma handleAddSample_full:
  "length (testSamples st) = 10 \<Longrightarrow> testSamples (handleAddSample st) = testSamples st"
  by (simp add: handleAddSample_def)

lemma handleFileUpload_parse_failure:
  "testSamples (handleFileUpload file None st) = testSamples st
   \<and> systemContext (handleFileUpload file None st) = systemContext st
   \<and> prompt_template (handleFileUpload file None st) = prompt_template st"
  by (simp add: handleFileUpload_def split: option.splits)

lemma handleFileUpload_exception:
  "readDataset jsonData = Inl e \<Longrightarrow>
     testSamples (handleFileUpload file (Some jsonData) st) = testSamples st
     \<and> systemContext (handleFileUpload file (Some jsonData) st) = systemContext st
     \<and> prompt_template (handleFileUpload file (Some jsonData) st) = prompt_template st"
  by (simp add: handleFileUpload_def split: option.splits)

text \<open>
  Claim C6 at a failing input. The document \<^verbatim>\<open>{"foo": 1}\<close> has none of the three layouts.
  The import raises nothing: it replaces the two samples of the list by no sample and
  reports that it loaded 0 samples.
\<close>

theorem unrecognized_dataset_empties_sample_list:
  "readDataset unrecognized_document = Inr ([], None)
   \<and> length (testSamples initialTester) = 2
   \<and> testSamples (handleFileUpload (Some json_file) (Some unrecognized_document) initialTester) = []
   \<and> tester_toasts (handleFileUpload (Some json_file) (Some unrecognized_document) initialTester)
       = [ToastLoadedSamples 0]"
  by (simp add: tester_eval)

text \<open>
  Claim C9 at a failing input. Importing a bare array of eleven strings leaves the list
  with eleven samples.
\<close>

theorem import_exceeds_ten_samples:
  "length (testSamples (handleFileUpload (Some json_file) (Some eleven_questions) initialTester)) = 11
   \<and> tester_toasts (handleFileUpload (Some json_file) (Some eleven_questions) initialTester)
       = [ToastLoadedSamples 11]"
  by (simp add: tester_eval)

end
